theory Spec2Isabelle
  imports Complex_Main
begin

section \<open>The 4x4 matrix library \<^verbatim>\<open>matrix.py\<close>\<close>

text \<open>
  The module builds 4x4 \<^verbatim>\<open>numpy.matrix\<close> values and computes determinants and
  inverses of them in closed form.

  Numbers. A number of the program, a Python \<^verbatim>\<open>int\<close> or \<^verbatim>\<open>float\<close> or a numpy cell, is
  read as the real number it denotes, and an arithmetic operation as the exact operation
  on reals. The program computes the same value wherever its own operation is exact: on
  integers small enough for the integer type of the cells not to wrap around and for
  float64 to hold them, which is the case of the sums of products of small integer
  cells. It computes a neighbouring value where float64 rounds, and another value
  altogether where an integer type wraps around. What a theorem below says of a value
  is therefore confined, by its hypotheses, to inputs on which the operations concerned
  are exact, or it is a statement that rounding does not touch: that a call returns or
  raises, that a divisor is zero, that a cell is not finite.

  Outcomes of a call:
  \<^item> \<open>Returns v\<close>: the call returns \<open>v\<close>;
  \<^item> \<open>Raises e\<close>: the call raises the exception \<open>e\<close>. A division of Python numbers by
    zero raises \<^verbatim>\<open>ZeroDivisionError\<close>;
  \<^item> \<open>Tan_pole\<close>: nothing is raised, but \<^verbatim>\<open>tan\<close> was taken at a nonzero real
    multiple of \<open>pi / 2\<close>. No float is such a multiple, so \<^verbatim>\<open>math.tan\<close> returns a
    huge or a tiny nonzero number there, an artefact of rounding \<open>pi\<close> that real
    arithmetic does not have.
\<close>

datatype py_error = ZeroDivisionError

datatype 'a outcome = Returns 'a | Tan_pole | Raises py_error

text \<open>Sequencing: the first statement that does not return a value decides the outcome.\<close>

fun bind_outcome :: "'a outcome \<Rightarrow> ('a \<Rightarrow> 'b outcome) \<Rightarrow> 'b outcome" where
  "bind_outcome (Returns v) f = f v"
| "bind_outcome Tan_pole f = Tan_pole"
| "bind_outcome (Raises e) f = Raises e"

text \<open>\<^verbatim>\<open>a / b\<close> on Python numbers (\<^verbatim>\<open>int\<close> or \<^verbatim>\<open>float\<close>).\<close>

definition py_div :: "real \<Rightarrow> real \<Rightarrow> real outcome" where
  "py_div a b = (if b = 0 then Raises ZeroDivisionError else Returns (a / b))"

text \<open>\<^verbatim>\<open>math.radians\<close> and \<^verbatim>\<open>math.tan\<close>.\<close>

definition radians :: "real \<Rightarrow> real" where
  "radians x = x * pi / 180"

definition py_tan :: "real \<Rightarrow> real outcome" where
  "py_tan x = (if x = 0 then Returns 0
               else if sin x = 0 then Tan_pole
               else if cos x = 0 then Tan_pole
               else Returns (tan x))"

subsection \<open>Matrices and row vectors\<close>

text \<open>
  A 4x4 \<^verbatim>\<open>numpy.matrix\<close>; the selector \<open>mij\<close> is the cell \<^verbatim>\<open>m[i,j]\<close> (row
  \<open>i\<close>, column \<open>j\<close>). A 1x4 matrix (a row vector) is a \<open>vec\<close>, with \<open>vj\<close> the cell
  \<^verbatim>\<open>v[0,j]\<close>.
\<close>

datatype mat = Mat
  (m00: real) (m01: real) (m02: real) (m03: real)
  (m10: real) (m11: real) (m12: real) (m13: real)
  (m20: real) (m21: real) (m22: real) (m23: real)
  (m30: real) (m31: real) (m32: real) (m33: real)

datatype vec = Vec (v0: real) (v1: real) (v2: real) (v3: real)


text \<open>The scalar matrix \<open>d I\<close>, used to state what a matrix times its adjugate is.\<close>

definition scalar_mat :: "real \<Rightarrow> mat" where
  "scalar_mat d = Mat
     d 0 0 0
     0 d 0 0
     0 0 d 0
     0 0 0 d"

text \<open>The product \<^verbatim>\<open>a * b\<close> of two \<^verbatim>\<open>numpy.matrix\<close> values.\<close>

definition mat_mul :: "mat \<Rightarrow> mat \<Rightarrow> mat" where
  "mat_mul a b = Mat
     (m00 a * m00 b + m01 a * m10 b + m02 a * m20 b + m03 a * m30 b)
     (m00 a * m01 b + m01 a * m11 b + m02 a * m21 b + m03 a * m31 b)
     (m00 a * m02 b + m01 a * m12 b + m02 a * m22 b + m03 a * m32 b)
     (m00 a * m03 b + m01 a * m13 b + m02 a * m23 b + m03 a * m33 b)
     (m10 a * m00 b + m11 a * m10 b + m12 a * m20 b + m13 a * m30 b)
     (m10 a * m01 b + m11 a * m11 b + m12 a * m21 b + m13 a * m31 b)
     (m10 a * m02 b + m11 a * m12 b + m12 a * m22 b + m13 a * m32 b)
     (m10 a * m03 b + m11 a * m13 b + m12 a * m23 b + m13 a * m33 b)
     (m20 a * m00 b + m21 a * m10 b + m22 a * m20 b + m23 a * m30 b)
     (m20 a * m01 b + m21 a * m11 b + m22 a * m21 b + m23 a * m31 b)
     (m20 a * m02 b + m21 a * m12 b + m22 a * m22 b + m23 a * m32 b)
     (m20 a * m03 b + m21 a * m13 b + m22 a * m23 b + m23 a * m33 b)
     (m30 a * m00 b + m31 a * m10 b + m32 a * m20 b + m33 a * m30 b)
     (m30 a * m01 b + m31 a * m11 b + m32 a * m21 b + m33 a * m31 b)
     (m30 a * m02 b + m31 a * m12 b + m32 a * m22 b + m33 a * m32 b)
     (m30 a * m03 b + m31 a * m13 b + m32 a * m23 b + m33 a * m33 b)"

text \<open>The product \<^verbatim>\<open>v * m\<close> of a row vector (a list of four numbers, or a 1x4 matrix)
  and a matrix.\<close>

definition vec_mat :: "vec \<Rightarrow> mat \<Rightarrow> vec" where
  "vec_mat v m = Vec
     (v0 v * m00 m + v1 v * m10 m + v2 v * m20 m + v3 v * m30 m)
     (v0 v * m01 m + v1 v * m11 m + v2 v * m21 m + v3 v * m31 m)
     (v0 v * m02 m + v1 v * m12 m + v2 v * m22 m + v3 v * m32 m)
     (v0 v * m03 m + v1 v * m13 m + v2 v * m23 m + v3 v * m33 m)"

subsection \<open>Division of a matrix by a scalar\<close>

text \<open>
  A float64 cell that a numpy division produces: a finite number, an infinity (of
  either sign) or NaN. numpy divides a float64 cell \<open>x\<close> by zero without raising: it
  emits a \<^verbatim>\<open>RuntimeWarning\<close>, and the quotient is an infinity when \<open>x\<close> is not zero and
  NaN when \<open>x\<close> is zero.
\<close>

datatype np_float = Finite real | Infinite | NaN

definition np_true_divide :: "real \<Rightarrow> real \<Rightarrow> np_float" where
  "np_true_divide x d = (if d = 0 then (if x = 0 then NaN else Infinite) else Finite (x / d))"

text \<open>A 4x4 matrix of such cells, and the list of its sixteen cells, row by row.\<close>

datatype np_mat = NpMat
  (c00: np_float) (c01: np_float) (c02: np_float) (c03: np_float)
  (c10: np_float) (c11: np_float) (c12: np_float) (c13: np_float)
  (c20: np_float) (c21: np_float) (c22: np_float) (c23: np_float)
  (c30: np_float) (c31: np_float) (c32: np_float) (c33: np_float)

definition np_cells :: "np_mat \<Rightarrow> np_float list" where
  "np_cells r =
     [c00 r, c01 r, c02 r, c03 r,
      c10 r, c11 r, c12 r, c13 r,
      c20 r, c21 r, c22 r, c23 r,
      c30 r, c31 r, c32 r, c33 r]"

text \<open>\<^verbatim>\<open>n / d\<close>: the float64 matrix \<^verbatim>\<open>n\<close> divided cell by cell by the scalar \<^verbatim>\<open>d\<close>.\<close>

definition np_div_mat :: "mat \<Rightarrow> real \<Rightarrow> np_mat" where
  "np_div_mat n d = NpMat
     (np_true_divide (m00 n) d) (np_true_divide (m01 n) d)
     (np_true_divide (m02 n) d) (np_true_divide (m03 n) d)
     (np_true_divide (m10 n) d) (np_true_divide (m11 n) d)
     (np_true_divide (m12 n) d) (np_true_divide (m13 n) d)
     (np_true_divide (m20 n) d) (np_true_divide (m21 n) d)
     (np_true_divide (m22 n) d) (np_true_divide (m23 n) d)
     (np_true_divide (m30 n) d) (np_true_divide (m31 n) d)
     (np_true_divide (m32 n) d) (np_true_divide (m33 n) d)"

subsection \<open>Transform builders\<close>

definition translate :: "real \<Rightarrow> real \<Rightarrow> real \<Rightarrow> mat" where
  "translate x y z = Mat
     1 0 0 0
     0 1 0 0
     0 0 1 0
     x y z 1"

definition scale :: "real \<Rightarrow> real \<Rightarrow> real \<Rightarrow> mat" where
  "scale x y z = Mat
     x 0 0 0
     0 y 0 0
     0 0 z 0
     0 0 0 1"

subsection \<open>Determinants\<close>

text \<open>\<^verbatim>\<open>determinant(m)\<close>: the 24 signed products, in the order of the source.\<close>

definition determinant :: "mat \<Rightarrow> real" where
  "determinant m =
       m03 m * m12 m * m21 m * m30 m - m02 m * m13 m * m21 m * m30 m
     - m03 m * m11 m * m22 m * m30 m + m01 m * m13 m * m22 m * m30 m
     + m02 m * m11 m * m23 m * m30 m - m01 m * m12 m * m23 m * m30 m
     - m03 m * m12 m * m20 m * m31 m + m02 m * m13 m * m20 m * m31 m
     + m03 m * m10 m * m22 m * m31 m - m00 m * m13 m * m22 m * m31 m
     - m02 m * m10 m * m23 m * m31 m + m00 m * m12 m * m23 m * m31 m
     + m03 m * m11 m * m20 m * m32 m - m01 m * m13 m * m20 m * m32 m
     - m03 m * m10 m * m21 m * m32 m + m00 m * m13 m * m21 m * m32 m
     + m01 m * m10 m * m23 m * m32 m - m00 m * m11 m * m23 m * m32 m
     - m02 m * m11 m * m20 m * m33 m + m01 m * m12 m * m20 m * m33 m
     + m02 m * m10 m * m21 m * m33 m - m00 m * m12 m * m21 m * m33 m
     - m01 m * m10 m * m22 m * m33 m + m00 m * m11 m * m22 m * m33 m"

text \<open>\<^verbatim>\<open>determinant_euclidean(m)\<close>: six products of cells of the upper left 3x3 block,
  added to \<^verbatim>\<open>0\<close>. It reads no other cell and tests nothing.\<close>

definition determinant_euclidean :: "mat \<Rightarrow> real" where
  "determinant_euclidean m = 0
     + (m00 m * m11 m * m22 m)
     - (m00 m * m12 m * m21 m)
     + (m01 m * m12 m * m20 m)
     - (m01 m * m10 m * m22 m)
     + (m02 m * m10 m * m21 m)
     - (m02 m * m11 m * m20 m)"

subsection \<open>Inverses\<close>

text \<open>
  \<^verbatim>\<open>_inverse(m, d)\<close> fills a fresh float64 matrix \<^verbatim>\<open>n\<close> by sixteen assignments and
  returns \<^verbatim>\<open>n / d\<close>. It tests nothing and has no statement that raises.
  \<open>inverse_impl_n\<close> is the matrix \<^verbatim>\<open>n\<close> before the division.
\<close>

definition inverse_impl_n :: "mat \<Rightarrow> mat" where
  "inverse_impl_n m = Mat
     (m12 m * m23 m * m31 m - m13 m * m22 m * m31 m + m13 m * m21 m * m32 m - m11 m * m23 m * m32 m - m12 m * m21 m * m33 m + m11 m * m22 m * m33 m)
     (m03 m * m22 m * m31 m - m02 m * m23 m * m31 m - m03 m * m21 m * m32 m + m01 m * m23 m * m32 m + m02 m * m21 m * m33 m - m01 m * m22 m * m33 m)
     (m02 m * m13 m * m31 m - m03 m * m12 m * m31 m + m03 m * m11 m * m32 m - m01 m * m13 m * m32 m - m02 m * m11 m * m33 m + m01 m * m12 m * m33 m)
     (m03 m * m12 m * m21 m - m02 m * m13 m * m21 m - m03 m * m11 m * m22 m + m01 m * m13 m * m22 m + m02 m * m11 m * m23 m - m01 m * m12 m * m23 m)
     (m13 m * m22 m * m30 m - m12 m * m23 m * m30 m - m13 m * m20 m * m32 m + m10 m * m23 m * m32 m + m12 m * m20 m * m33 m - m10 m * m22 m * m33 m)
     (m02 m * m23 m * m30 m - m03 m * m22 m * m30 m + m03 m * m20 m * m32 m - m00 m * m23 m * m32 m - m02 m * m20 m * m33 m + m00 m * m22 m * m33 m)
     (m03 m * m12 m * m30 m - m02 m * m13 m * m30 m - m03 m * m10 m * m32 m + m00 m * m13 m * m32 m + m02 m * m10 m * m33 m - m00 m * m12 m * m33 m)
     (m02 m * m13 m * m20 m - m03 m * m12 m * m20 m + m03 m * m10 m * m22 m - m00 m * m13 m * m22 m - m02 m * m10 m * m23 m + m00 m * m12 m * m23 m)
     (m11 m * m23 m * m30 m - m13 m * m21 m * m30 m + m13 m * m20 m * m31 m - m10 m * m23 m * m31 m - m11 m * m20 m * m33 m + m10 m * m21 m * m33 m)
     (m03 m * m21 m * m30 m - m01 m * m23 m * m30 m - m03 m * m20 m * m31 m + m00 m * m23 m * m31 m + m01 m * m20 m * m33 m - m00 m * m21 m * m33 m)
     (m01 m * m13 m * m30 m - m03 m * m11 m * m30 m + m03 m * m10 m * m31 m - m00 m * m13 m * m31 m - m01 m * m10 m * m33 m + m00 m * m11 m * m33 m)
     (m03 m * m11 m * m20 m - m01 m * m13 m * m20 m - m03 m * m10 m * m21 m + m00 m * m13 m * m21 m + m01 m * m10 m * m23 m - m00 m * m11 m * m23 m)
     (m12 m * m21 m * m30 m - m11 m * m22 m * m30 m - m12 m * m20 m * m31 m + m10 m * m22 m * m31 m + m11 m * m20 m * m32 m - m10 m * m21 m * m32 m)
     (m01 m * m22 m * m30 m - m02 m * m21 m * m30 m + m02 m * m20 m * m31 m - m00 m * m22 m * m31 m - m01 m * m20 m * m32 m + m00 m * m21 m * m32 m)
     (m02 m * m11 m * m30 m - m01 m * m12 m * m30 m - m02 m * m10 m * m31 m + m00 m * m12 m * m31 m + m01 m * m10 m * m32 m - m00 m * m11 m * m32 m)
     (m01 m * m12 m * m20 m - m02 m * m11 m * m20 m + m02 m * m10 m * m21 m - m00 m * m12 m * m21 m - m01 m * m10 m * m22 m + m00 m * m11 m * m22 m)"


definition inverse_impl :: "mat \<Rightarrow> real \<Rightarrow> np_mat outcome" where
  "inverse_impl m d = Returns (np_div_mat (inverse_impl_n m) d)"

text \<open>\<^verbatim>\<open>inverse(m)\<close>.\<close>

definition inverse_mat :: "mat \<Rightarrow> np_mat outcome" where
  "inverse_mat m = inverse_impl m (determinant m)"

text \<open>
  The matrix \<^verbatim>\<open>n\<close> of \<^verbatim>\<open>_inverse_euclidean(m, d)\<close> before its division by \<^verbatim>\<open>d\<close>: the
  nine cofactors of the 3x3 block, a zero last column, and a last row computed from
  the cells of \<^verbatim>\<open>n\<close> assigned before it.
\<close>

definition inverse_euclidean_impl_n :: "mat \<Rightarrow> mat" where
  "inverse_euclidean_impl_n m =
     (let n00 = m11 m * m22 m - m12 m * m21 m;
          n10 = m12 m * m20 m - m10 m * m22 m;
          n20 = m10 m * m21 m - m11 m * m20 m;
          n01 = m02 m * m21 m - m01 m * m22 m;
          n11 = m00 m * m22 m - m02 m * m20 m;
          n21 = m01 m * m20 m - m00 m * m21 m;
          n02 = m01 m * m12 m - m02 m * m11 m;
          n12 = m02 m * m10 m - m00 m * m12 m;
          n22 = m00 m * m11 m - m01 m * m10 m;
          n03 = 0; n13 = 0; n23 = 0;
          n30 = - m30 m * n00 - m31 m * n10 - m32 m * n20;
          n31 = - m30 m * n01 - m31 m * n11 - m32 m * n21;
          n32 = - m30 m * n02 - m31 m * n12 - m32 m * n22;
          n33 = m00 m * n00 + m01 m * n10 + m02 m * n20
      in Mat
        n00 n01 n02 n03
        n10 n11 n12 n13
        n20 n21 n22 n23
        n30 n31 n32 n33)"


subsection \<open>Projection builders\<close>

text \<open>
  \<^verbatim>\<open>projection(near, far, fov_horiz, fov_vert)\<close>, called with Python numbers. The
  three divisions are divisions of Python numbers; there is no other test of the
  arguments.
\<close>

definition projection :: "real \<Rightarrow> real \<Rightarrow> real \<Rightarrow> real \<Rightarrow> mat outcome" where
  "projection near far fov_horiz fov_vert =
     bind_outcome (py_tan (radians fov_horiz / 2)) (\<lambda>th.
     bind_outcome (py_div 1 th) (\<lambda>w.
     bind_outcome (py_tan (radians fov_vert / 2)) (\<lambda>tv.
     bind_outcome (py_div 1 tv) (\<lambda>h.
     bind_outcome (py_div far (far - near)) (\<lambda>q.
     Returns (Mat
       w 0 0 0
       0 h 0 0
       0 0 q 1
       0 0 (- q * near) 0))))))"





subsection \<open>Auxiliary definitions for the statements\<close>


text \<open>The shape of the matrix that \<^verbatim>\<open>projection\<close> returns, from its \<open>w\<close>, \<open>h\<close>, \<open>q\<close>
  and \<open>near\<close>.\<close>

definition canonical :: "real \<Rightarrow> real \<Rightarrow> real \<Rightarrow> real \<Rightarrow> mat" where
  "canonical w h q near = Mat
     w 0 0 0
     0 h 0 0
     0 0 q 1
     0 0 (- q * near) 0"

text \<open>The sixteen cells of a matrix, row by row, and its four rows.\<close>

definition cells :: "mat \<Rightarrow> real list" where
  "cells m =
     [m00 m, m01 m, m02 m, m03 m,
      m10 m, m11 m, m12 m, m13 m,
      m20 m, m21 m, m22 m, m23 m,
      m30 m, m31 m, m32 m, m33 m]"

definition rows :: "mat \<Rightarrow> vec list" where
  "rows m =
     [Vec (m00 m) (m01 m) (m02 m) (m03 m),
      Vec (m10 m) (m11 m) (m12 m) (m13 m),
      Vec (m20 m) (m21 m) (m22 m) (m23 m),
      Vec (m30 m) (m31 m) (m32 m) (m33 m)]"

text \<open>
  Matrices whose cells are integers of magnitude at most 64, held in cells of type
  int32, int64 or float64. A product of four such cells is at most \<open>2 ^ 24\<close> and a sum of
  24 such products less than \<open>2 ^ 29\<close>: on these matrices the sums of products that
  \<^verbatim>\<open>determinant\<close> and \<^verbatim>\<open>_inverse\<close> compute neither wrap around nor round, and the
  program computes the numbers of the model.
\<close>

definition small_int_cells :: "mat \<Rightarrow> bool" where
  "small_int_cells m = list_all (\<lambda>x. x \<in> \<int> \<and> \<bar>x\<bar> \<le> 64) (cells m)"

text \<open>
  Arguments of \<^verbatim>\<open>projection\<close> on which its tests for a zero divisor come out as in
  real arithmetic: \<open>near\<close> and \<open>far\<close> of magnitude at most \<open>2 ^ 53\<close> (an \<^verbatim>\<open>int\<close> of that
  size is converted to float64 exactly, and two different float64 numbers have a
  nonzero difference), and angles between 1 and 359 degrees other than 180 (the float64
  tangent of half such an angle is neither zero nor, as at 180, an artefact of the
  rounding of \<open>pi\<close>).
\<close>

definition plain_arguments :: "real \<Rightarrow> real \<Rightarrow> real \<Rightarrow> real \<Rightarrow> bool" where
  "plain_arguments near far fov_horiz fov_vert \<longleftrightarrow>
     \<bar>near\<bar> \<le> 2 ^ 53 \<and> \<bar>far\<bar> \<le> 2 ^ 53
     \<and> 1 \<le> fov_horiz \<and> fov_horiz \<le> 359 \<and> fov_horiz \<noteq> 180
     \<and> 1 \<le> fov_vert \<and> fov_vert \<le> 359 \<and> fov_vert \<noteq> 180"


definition S1 :: mat where
  "S1 = Mat
     1 2 3 4
     1 2 3 4
     0 0 1 0
     0 0 0 1"

definition S2 :: mat where
  "S2 = Mat
     1 0 0 0
     0 1 0 0
     5 6 7 8
     5 6 7 8"

section \<open>Polynomial identities behind the formulas\<close>

text \<open>
  Identities between the polynomials that the functions evaluate, with the cells as
  indeterminates. They hold of the numbers the program computes where its arithmetic is
  exact, and say nothing of a float64 result that has been rounded.

  The sixteen cells that \<^verbatim>\<open>_inverse\<close> assigns are the adjugate of \<open>m\<close>: multiplied with
  \<open>m\<close> on either side they give the determinant times the identity.
\<close>

lemma mat_mul_inverse_impl_n:
  "mat_mul m (inverse_impl_n m) = scalar_mat (determinant m)"
  by (cases m)
    (simp add: mat_mul_def inverse_impl_n_def determinant_def scalar_mat_def algebra_simps)

lemma inverse_impl_n_mat_mul:
  "mat_mul (inverse_impl_n m) m = scalar_mat (determinant m)"
  by (cases m)
    (simp add: mat_mul_def inverse_impl_n_def determinant_def scalar_mat_def algebra_simps)

text \<open>
  On a matrix with the last column \<open>(0,0,0,1)\<close> the 24 products of \<^verbatim>\<open>determinant\<close>
  reduce to the six of \<^verbatim>\<open>determinant_euclidean\<close>, and the sixteen cells of \<^verbatim>\<open>_inverse\<close>
  to those of \<^verbatim>\<open>_inverse_euclidean\<close>.
\<close>

lemma euclidean_determinant:
  assumes "m03 m = 0" "m13 m = 0" "m23 m = 0" "m33 m = 1"
  shows "determinant m = determinant_euclidean m"
  using assms by (simp add: determinant_def determinant_euclidean_def)

lemma euclidean_impl_n:
  assumes "m03 m = 0" "m13 m = 0" "m23 m = 0" "m33 m = 1"
  shows "inverse_impl_n m = inverse_euclidean_impl_n m"
  using assms
  by (simp add: inverse_impl_n_def inverse_euclidean_impl_n_def Let_def algebra_simps)

text \<open>A matrix with two identical rows has the determinant zero.\<close>

lemma determinant_identical_rows:
  assumes "\<not> distinct (rows m)"
  shows "determinant m = 0"
proof -
  consider "m10 m = m00 m" "m11 m = m01 m" "m12 m = m02 m" "m13 m = m03 m"
    | "m20 m = m00 m" "m21 m = m01 m" "m22 m = m02 m" "m23 m = m03 m"
    | "m30 m = m00 m" "m31 m = m01 m" "m32 m = m02 m" "m33 m = m03 m"
    | "m20 m = m10 m" "m21 m = m11 m" "m22 m = m12 m" "m23 m = m13 m"
    | "m30 m = m10 m" "m31 m = m11 m" "m32 m = m12 m" "m33 m = m13 m"
    | "m30 m = m20 m" "m31 m = m21 m" "m32 m = m22 m" "m33 m = m23 m"
    using assms by (auto simp: rows_def)
  then show ?thesis
    by cases (simp_all add: determinant_def)
qed

section \<open>The inverse of a singular matrix\<close>

text \<open>
  C4 (as the code has it). Let \<open>m\<close> be a singular matrix whose cells are integers of
  magnitude at most 64, so that \<^verbatim>\<open>determinant(m)\<close> computes exactly 0; a matrix of
  such cells with two identical rows is one. Then \<^verbatim>\<open>inverse(m)\<close> raises no error: it
  returns a matrix, the quotient of the sixteen cofactor cells by zero, in which every
  cell is an infinity or NaN, an infinity where the cofactor cell is not zero and NaN
  where it is.
\<close>

theorem inverse_mat_singular:
  assumes "small_int_cells m" and "determinant m = 0"
  shows "\<exists>r. inverse_mat m = Returns r
    \<and> list_all (\<lambda>c. c = Infinite \<or> c = NaN) (np_cells r)
    \<and> np_cells r = map (\<lambda>x. if x = 0 then NaN else Infinite) (cells (inverse_impl_n m))"
  using assms(2)
  by (simp add: inverse_mat_def inverse_impl_def np_div_mat_def np_cells_def cells_def
      np_true_divide_def)

theorem inverse_mat_singular_witness:
  "small_int_cells S2 \<and> \<not> distinct (rows S2) \<and> determinant S2 = 0
   \<and> (\<exists>r. inverse_mat S2 = Returns r
     \<and> list_all (\<lambda>c. c = Infinite \<or> c = NaN) (np_cells r))"
proof -
  have s: "small_int_cells S2"
    by (simp add: small_int_cells_def cells_def S2_def)
  have r: "\<not> distinct (rows S2)"
    by (simp add: rows_def S2_def)
  have d: "determinant S2 = 0"
    using r by (rule determinant_identical_rows)
  show ?thesis
    using s r d inverse_mat_singular [OF s d] by blast
qed

text \<open>
  C4 (as the specification states it) fails: \<open>S1\<close> has two identical rows and the
  determinant 0, and \<^verbatim>\<open>inverse(S1)\<close> raises nothing; it returns this matrix of
  infinities and NaN.
\<close>

theorem inverse_mat_identical_rows_no_error:
  "determinant S1 = 0
   \<and> inverse_mat S1 = Returns (NpMat
       Infinite Infinite NaN NaN
       Infinite Infinite NaN NaN
       NaN NaN NaN NaN
       NaN NaN NaN NaN)
   \<and> (\<forall>e. inverse_mat S1 \<noteq> Raises e)"
  by (simp add: inverse_mat_def inverse_impl_def np_div_mat_def np_true_divide_def
      inverse_impl_n_def determinant_def S1_def)

section \<open>The Euclidean determinant\<close>



section \<open>Transform builders\<close>

text \<open>
  C8 (as the code has it). The product \<^verbatim>\<open>translate(1,2,3) * scale(2,2,2)\<close>, in that
  order, applied to a row vector on its left, sends the point \<open>(0,0,0,1)\<close> to
  \<open>(2,4,6,1)\<close> and the point \<open>(1,0,0,1)\<close> to \<open>(4,4,6,1)\<close>: the translation acts first and
  the scale then doubles it. The values \<open>(1,2,3,1)\<close> and \<open>(3,2,3,1)\<close> are those of the
  product in the other order, \<^verbatim>\<open>scale(2,2,2) * translate(1,2,3)\<close>.
\<close>

theorem translate_scale_points:
  "vec_mat (Vec 0 0 0 1) (mat_mul (translate 1 2 3) (scale 2 2 2)) = Vec 2 4 6 1
   \<and> vec_mat (Vec 1 0 0 1) (mat_mul (translate 1 2 3) (scale 2 2 2)) = Vec 4 4 6 1
   \<and> vec_mat (Vec 0 0 0 1) (mat_mul (scale 2 2 2) (translate 1 2 3)) = Vec 1 2 3 1
   \<and> vec_mat (Vec 1 0 0 1) (mat_mul (scale 2 2 2) (translate 1 2 3)) = Vec 3 2 3 1"
  by (simp add: vec_mat_def mat_mul_def translate_def scale_def)

text \<open>
  C8 (as the specification states it) fails: the point \<open>(0,0,0,1)\<close> is not sent to
  \<open>(1,2,3,1)\<close> by \<^verbatim>\<open>translate(1,2,3) * scale(2,2,2)\<close>.
\<close>

theorem translate_scale_origin_not_123:
  "vec_mat (Vec 0 0 0 1) (mat_mul (translate 1 2 3) (scale 2 2 2)) \<noteq> Vec 1 2 3 1"
  by (simp add: vec_mat_def mat_mul_def translate_def scale_def)

section \<open>Stereo correction\<close>




section \<open>What \<^verbatim>\<open>projection\<close> does with arguments out of range\<close>

lemma py_tan_half_fov_wide:
  assumes "0 < fov" "fov < 360" "fov \<noteq> 180"
  shows "py_tan (radians fov / 2) = Returns (tan (radians fov / 2))"
    and "tan (radians fov / 2) \<noteq> 0"
proof -
  let ?a = "radians fov / 2"
  have r: "0 < ?a" "?a < pi" "?a \<noteq> pi / 2"
    using assms by (simp_all add: radians_def)
  have s: "sin ?a \<noteq> 0"
    using sin_gt_zero [OF r(1,2)] by simp
  have c: "cos ?a \<noteq> 0"
  proof (cases "?a < pi / 2")
    case True
    then show ?thesis
      using cos_gt_zero [OF r(1)] by simp
  next
    case False
    then have "0 < pi - ?a" "pi - ?a < pi / 2"
      using r by simp_all
    then have "0 < cos (pi - ?a)"
      by (rule cos_gt_zero)
    then show ?thesis
      by simp
  qed
  show "py_tan ?a = Returns (tan ?a)"
    using r s c by (simp add: py_tan_def)
  show "tan ?a \<noteq> 0"
    using s c by (simp add: tan_def)
qed

text \<open>
  C7 (as the code has it). \<^verbatim>\<open>projection\<close> checks none of its arguments. For \<open>near\<close> and
  \<open>far\<close> of magnitude at most \<open>2 ^ 53\<close> and angles between 1 and 359 degrees other than
  180, it raises \<^verbatim>\<open>ZeroDivisionError\<close>, the error of its own division
  \<^verbatim>\<open>far / (far - near)\<close>, when \<open>far = near\<close>; in every other case it returns a matrix
  of the shape of a projection matrix and reports nothing: so it does for \<open>near > far\<close>,
  for \<open>near\<close> or \<open>far\<close> negative or zero, and for an angle above 180 degrees.
\<close>

theorem projection_checks_nothing:
  assumes "plain_arguments near far fov_h fov_v"
  shows "(far = near \<longrightarrow> projection near far fov_h fov_v = Raises ZeroDivisionError)
    \<and> (far \<noteq> near \<longrightarrow>
        (\<exists>w h q c. projection near far fov_h fov_v = Returns (Mat
           w 0 0 0
           0 h 0 0
           0 0 q 1
           0 0 c 0)))"
proof -
  have h: "0 < fov_h" "fov_h < 360" "fov_h \<noteq> 180"
    and v: "0 < fov_v" "fov_v < 360" "fov_v \<noteq> 180"
    using assms by (simp_all add: plain_arguments_def)
  show ?thesis
    using py_tan_half_fov_wide [OF h] py_tan_half_fov_wide [OF v]
    by (simp add: projection_def py_div_def)
qed

lemma tan_pi_4: "tan (radians 90 / 2) = 1"
proof -
  have "radians 90 / 2 = pi / 4"
    by (simp add: radians_def)
  then show ?thesis
    by (simp only: tan_45)
qed

lemma tan_3pi_4: "tan (radians 270 / 2) = - 1"
proof -
  have "radians 270 / 2 = - (pi / 4) + pi"
    by (simp add: radians_def)
  then have "tan (radians 270 / 2) = tan (- (pi / 4) + pi)"
    by (simp only:)
  also have "\<dots> = tan (- (pi / 4))"
    by (rule tan_periodic_pi)
  also have "\<dots> = - 1"
    by (simp only: tan_minus tan_45)
  finally show ?thesis .
qed

theorem projection_checks_nothing_witness:
  "plain_arguments 3 1 90 270 \<and> plain_arguments 1 1 90 270
   \<and> projection 1 1 90 270 = Raises ZeroDivisionError
   \<and> (\<exists>w h q c. projection 3 1 90 270 = Returns (Mat
        w 0 0 0
        0 h 0 0
        0 0 q 1
        0 0 c 0))"
proof -
  have a: "plain_arguments 3 1 90 270" and b: "plain_arguments 1 1 90 270"
    by (simp_all add: plain_arguments_def)
  show ?thesis
    using a b projection_checks_nothing [OF a] projection_checks_nothing [OF b]
    by simp
qed

text \<open>
  C7 (as the specification states it) fails: \<^verbatim>\<open>projection\<close> returns a matrix, and no
  error, for \<open>near = 2 > far = 1\<close>, for a horizontal field of view of 270 degrees, and
  for negative \<open>near\<close> and \<open>far\<close>.
\<close>

theorem projection_accepts_invalid_input:
  "projection 2 1 90 90 = Returns (canonical 1 1 (- 1) 2)
   \<and> projection 1 2 270 90 = Returns (canonical (- 1) 1 2 1)
   \<and> projection (- 1) (- 2) 90 90 = Returns (canonical 1 1 2 (- 1))"
proof -
  have a: "py_tan (radians 90 / 2) = Returns 1"
    using py_tan_half_fov_wide(1) [of 90] by (simp add: tan_pi_4)
  have b: "py_tan (radians 270 / 2) = Returns (- 1)"
    using py_tan_half_fov_wide(1) [of 270] by (simp add: tan_3pi_4)
  show ?thesis
    by (simp add: projection_def a b py_div_def canonical_def)
qed

end
